theory Spec2Isabelle
  imports Complex_Main "HOL-Library.Multiset"
begin

section \<open>The classification API of main.py\<close>

text \<open>
  The program is a FastAPI application over one relational table and one upload directory.
  Every endpoint is modelled as a function of the request's arguments and the persisted state
  (the table, its auto-increment counter and the files below the upload directory). An
  endpoint that raises \<^verbatim>\<open>HTTPException\<close> returns \<open>Inl\<close> of the exception.
\<close>

subsection \<open>Strings\<close>

type_synonym bytes = "char list"

text \<open>
  \<^verbatim>\<open>str.split(sep)\<close> for a one-character separator: the pieces between the separators,
  empty pieces kept, never an empty list.
\<close>

fun split :: "string \<Rightarrow> char \<Rightarrow> string list" where
  "split [] sep = [] # []"
| "split (c # cs) sep =
     (if c = sep then [] # split cs sep
      else (case split cs sep of
              [] \<Rightarrow> [c] # []
            | w # ws \<Rightarrow> (c # w) # ws))"

text \<open>
  \<^verbatim>\<open>str.lower()\<close>. A string is its UTF-8 bytes; the ASCII capitals are mapped to small
  letters and every other byte is kept. (Python also lowers capitals beyond ASCII; none of
  them lowers to one of the letters b, e, g, j, m, n, p of the allowed extensions, so the
  test against \<open>allowed_extensions\<close> is the same.)
\<close>

definition lower_char :: "char \<Rightarrow> char" where
  "lower_char c =
     (let n = (of_char c :: nat) in if 65 \<le> n \<and> n \<le> 90 then char_of (n + 32) else c)"

definition lower :: "string \<Rightarrow> string" where
  "lower s = map lower_char s"

subsection \<open>The table and the persisted state\<close>

text \<open>
  Timestamps are values of the database clock; \<^verbatim>\<open>str(r.created_at)\<close> only renders
  them, so a response carries the timestamp itself.
\<close>

type_synonym timestamp = nat

text \<open>The class \<^verbatim>\<open>Klasifikasi\<close>: one row of the table \<^verbatim>\<open>klasifikasi\<close>.\<close>

record klasifikasi =
  id_col :: int
  path :: string
  hasil :: int
  created_at :: timestamp
  updated_at :: timestamp

text \<open>
  The state that outlives a request: the rows of the table in insertion order, the next
  value of the auto-increment primary key, and the files of the file system by path.
\<close>

record state =
  rows :: "klasifikasi list"
  auto_increment :: int
  files :: "string \<rightharpoonup> bytes"

text \<open>
  The primary key: \<^verbatim>\<open>id\<close> is unique, and the counter is above every id handed out.
\<close>

definition primary_key :: "state \<Rightarrow> bool" where
  "primary_key s \<longleftrightarrow>
     distinct (map id_col (rows s)) \<and> (\<forall>r \<in> set (rows s). id_col r < auto_increment s)"

subsection \<open>Responses\<close>

text \<open>
  The \<^verbatim>\<open>detail\<close> of an \<^verbatim>\<open>HTTPException\<close>, one constructor for each message of the
  source:
  \<^item> \<open>FileTypeTidakDidukung\<close>: "File type tidak didukung. Gunakan: ..."
  \<^item> \<open>NilaiHasil\<close>: "Nilai hasil harus 0 (Sakit) atau 1 (Sehat)"
  \<^item> \<open>Error m\<close>: "Error: " followed by \<^verbatim>\<open>str(e)\<close> of the exception caught
  \<^item> \<open>DataTidakDitemukan\<close>: "Data tidak ditemukan"
  \<^item> \<open>HasilHarus\<close>: "Hasil harus 0 atau 1"
  \<^item> \<open>InternalServerError\<close>: the framework's answer to an exception no handler catches
\<close>

datatype detail =
  FileTypeTidakDidukung
| NilaiHasil
| Error string
| DataTidakDitemukan
| HasilHarus
| InternalServerError

datatype http_error = HTTPException (status_code: nat) (detail: detail)

text \<open>The dictionary every endpoint renders a row to.\<close>

record data =
  d_id :: int
  d_path :: string
  d_hasil :: string
  d_created_at :: timestamp
  d_updated_at :: timestamp

definition render :: "klasifikasi \<Rightarrow> data" where
  "render r =
     \<lparr>d_id = id_col r,
      d_path = path r,
      d_hasil = (if hasil r = 1 then ''Sehat'' else ''Sakit''),
      d_created_at = created_at r,
      d_updated_at = updated_at r\<rparr>"

subsection \<open>Upload\<close>

definition UPLOAD_DIR :: string where
  "UPLOAD_DIR = ''uploads''"

definition allowed_extensions :: "string set" where
  "allowed_extensions = {''jpg'', ''jpeg'', ''png'', ''bmp''}"

text \<open>\<^verbatim>\<open>file.filename.split(".")[-1].lower()\<close>; the list of pieces is never empty.\<close>

definition file_extension :: "string \<Rightarrow> string" where
  "file_extension filename = lower (last (split filename (CHR ''.'')))"

text \<open>
  The uploaded file: its name and the bytes of \<^verbatim>\<open>file.file\<close>. The framework takes
  a part of the form for a file only when it carries a file name, so the name is a string;
  it is whatever the client sent, separators included.
\<close>

record upload_file =
  filename :: string
  file_content :: bytes

text \<open>
  What the world outside the program does during one request. Opening the target for
  writing may raise; copying may raise after some bytes have been written; the commit may
  raise, and so may the refresh that follows a commit. Each carries \<^verbatim>\<open>str(e)\<close>.
  \<open>now\<close> is the clock (of the database for the row's timestamps, of the process for the
  health check).
\<close>

datatype file_outcome = Written | OpenRaises string | CopyRaises nat string

datatype db_outcome = Committed | CommitRaises string | RefreshRaises string

record env =
  now :: timestamp
  file_io :: file_outcome
  db_io :: db_outcome

text \<open>
  \<^verbatim>\<open>with open(file_location, "wb") as buffer: shutil.copyfileobj(file.file, buffer)\<close>.
  Opening with "wb" creates or truncates the file; a copy that raises leaves the bytes
  written so far. The result is the exception raised, if any, and the state left behind.
\<close>

definition save_file :: "env \<Rightarrow> string \<Rightarrow> bytes \<Rightarrow> state \<Rightarrow> string option \<times> state" where
  "save_file e file_location bs s =
     (case file_io e of
        OpenRaises m \<Rightarrow> (Some m, s)
      | CopyRaises n m \<Rightarrow> (Some m, s\<lparr>files := (files s)(file_location \<mapsto> take n bs)\<rparr>)
      | Written \<Rightarrow> (None, s\<lparr>files := (files s)(file_location \<mapsto> bs)\<rparr>))"

text \<open>
  \<^verbatim>\<open>db.add(new_data); db.commit(); db.refresh(new_data)\<close>: the row gets the next id and
  the server's timestamps. A commit that raises inserts nothing; a refresh that raises
  does so after the row is committed. (A path longer than the column's 255 characters is
  one of the reasons for which the commit raises, under the server's strict mode.)
\<close>

definition add_commit_refresh ::
  "env \<Rightarrow> string \<Rightarrow> int \<Rightarrow> state \<Rightarrow> (string + klasifikasi) \<times> state"
where
  "add_commit_refresh e p h s =
     (let new_data = \<lparr>id_col = auto_increment s, path = p, hasil = h,
                      created_at = now e, updated_at = now e\<rparr>;
          s' = s\<lparr>rows := rows s @ [new_data], auto_increment := auto_increment s + 1\<rparr>
      in case db_io e of
           CommitRaises m \<Rightarrow> (Inl m, s)
         | RefreshRaises m \<Rightarrow> (Inl m, s')
         | Committed \<Rightarrow> (Inr new_data, s'))"

datatype json_response = JSONResponse (response_code: nat) (content: data)

text \<open>
  The endpoint \<^verbatim>\<open>POST /upload\<close>. The two checks come first and raise 400; every other
  exception of the body is caught and raised again as 500.
\<close>

definition upload_data ::
  "env \<Rightarrow> upload_file \<Rightarrow> int \<Rightarrow> state \<Rightarrow> (http_error + json_response) \<times> state"
where
  "upload_data e f h s =
     (if file_extension (filename f) \<notin> allowed_extensions
      then (Inl (HTTPException 400 FileTypeTidakDidukung), s)
      else if h \<notin> {0, 1}
      then (Inl (HTTPException 400 NilaiHasil), s)
      else
        let file_location = UPLOAD_DIR @ ''/'' @ filename f in
        (case save_file e file_location (file_content f) s of
           (Some m, s1) \<Rightarrow> (Inl (HTTPException 500 (Error m)), s1)
         | (None, s1) \<Rightarrow>
             (case add_commit_refresh e file_location h s1 of
                (Inl m, s2) \<Rightarrow> (Inl (HTTPException 500 (Error m)), s2)
              | (Inr new_data, s2) \<Rightarrow> (Inr (JSONResponse 201 (render new_data)), s2))))"

subsection \<open>Queries\<close>

text \<open>\<^verbatim>\<open>ORDER BY id DESC\<close>.\<close>

definition order_by_id_desc :: "klasifikasi list \<Rightarrow> klasifikasi list" where
  "order_by_id_desc rs = rev (sort_key id_col rs)"

record all_data =
  total_data :: nat
  data :: "data list"

text \<open>
  \<^verbatim>\<open>order_by(id.desc()).offset(skip).limit(limit).all()\<close>, then \<^verbatim>\<open>count()\<close>. The
  database (MySQL) rejects a negative offset or limit; the endpoint catches nothing, so the
  framework answers 500.
\<close>

definition get_all_data :: "int \<Rightarrow> int \<Rightarrow> state \<Rightarrow> http_error + all_data" where
  "get_all_data skip limit s =
     (if skip < 0 \<or> limit < 0 then Inl (HTTPException 500 InternalServerError)
      else
        let records = take (nat limit) (drop (nat skip) (order_by_id_desc (rows s)));
            total_n = length (rows s)
        in Inr \<lparr>total_data = total_n, data = map render records\<rparr>)"

text \<open>\<^verbatim>\<open>filter(Klasifikasi.id == id).first()\<close>, and 404 when there is no such row.\<close>

definition get_data_by_id :: "int \<Rightarrow> state \<Rightarrow> http_error + data" where
  "get_data_by_id i s =
     (case find (\<lambda>r. id_col r = i) (rows s) of
        None \<Rightarrow> Inl (HTTPException 404 DataTidakDitemukan)
      | Some record \<Rightarrow> Inr (render record))"

record status_data =
  filter_label :: string
  s_total_data :: nat
  s_data :: "data list"

definition get_by_status :: "int \<Rightarrow> state \<Rightarrow> http_error + status_data" where
  "get_by_status h s =
     (if h \<notin> {0, 1} then Inl (HTTPException 400 HasilHarus)
      else
        let records = order_by_id_desc (filter (\<lambda>r. hasil r = h) (rows s));
            status_label = (if h = 1 then ''Sehat'' else ''Sakit'');
            result = map render records
        in Inr \<lparr>filter_label = ''Status '' @ status_label,
                s_total_data = length result,
                s_data = result\<rparr>)"

subsection \<open>Python's float arithmetic\<close>

text \<open>
  A Python \<^verbatim>\<open>float\<close> is a binary64, modelled by the rational number it stands for.
  \<open>to_float q\<close> is the binary64 nearest to \<open>q\<close>, ties to the even significand of 53 bits.
  The exponent is not bounded here, which is binary64 for every magnitude from
  \<open>2\<^sup>-\<^sup>1\<^sup>0\<^sup>2\<^sup>2\<close> up to \<open>2\<^sup>1\<^sup>0\<^sup>2\<^sup>4\<close>: a quotient of two row counts, and a hundred times
  it, are far inside.
\<close>

text \<open>The number of binary digits of a positive integer.\<close>

function bit_length :: "int \<Rightarrow> int" where
  "bit_length n = (if n \<le> 0 then 0 else 1 + bit_length (n div 2))"
  by pat_completeness auto
termination
  by (relation "measure nat") auto

definition round_half_even :: "rat \<Rightarrow> int" where
  "round_half_even q =
     (let f = \<lfloor>q\<rfloor>; d = q - of_int f
      in if d < 1 / 2 then f else if 1 / 2 < d then f + 1 else if even f then f else f + 1)"

definition pow2 :: "int \<Rightarrow> rat" where
  "pow2 e = (if 0 \<le> e then 2 ^ nat e else 1 / 2 ^ nat (- e))"

text \<open>For \<open>0 < q\<close>, the \<open>e\<close> with \<open>2\<^sup>e \<le> q < 2\<^sup>e\<^sup>+\<^sup>1\<close>.\<close>

definition exponent :: "rat \<Rightarrow> int" where
  "exponent q =
     (let (a, b) = quotient_of q;
          e = bit_length a - bit_length b
      in if pow2 e \<le> q then e else e - 1)"

definition to_float :: "rat \<Rightarrow> rat" where
  "to_float q =
     (if q = 0 then 0
      else let e = exponent \<bar>q\<bar>
           in sgn q * of_int (round_half_even (\<bar>q\<bar> * pow2 (52 - e))) * pow2 (e - 52))"

datatype py_error = ZeroDivisionError

text \<open>\<^verbatim>\<open>a / b\<close> on two ints: the quotient, correctly rounded.\<close>

definition truediv :: "nat \<Rightarrow> nat \<Rightarrow> py_error + rat" where
  "truediv a b = (if b = 0 then Inl ZeroDivisionError else Inr (to_float (of_nat a / of_nat b)))"

text \<open>\<^verbatim>\<open>x * y\<close> on two floats.\<close>

definition float_mul :: "rat \<Rightarrow> rat \<Rightarrow> rat" where
  "float_mul x y = to_float (x * y)"

text \<open>
  \<^verbatim>\<open>round(x, ndigits)\<close> on a float: the decimal with \<open>ndigits\<close> places nearest to the value
  of \<open>x\<close>, ties to even, and then the float nearest to that decimal.
\<close>

definition round_float :: "rat \<Rightarrow> nat \<Rightarrow> rat" where
  "round_float x ndigits =
     to_float (of_int (round_half_even (x * 10 ^ ndigits)) / 10 ^ ndigits)"

text \<open>A Python number of a response: the \<^verbatim>\<open>int\<close> \<open>0\<close> is not the \<^verbatim>\<open>float\<close> \<open>0.0\<close>.\<close>

datatype number = PyInt int | PyFloat rat

subsection \<open>Statistics\<close>

record statistics =
  st_total_data :: nat
  status_sehat :: nat
  status_sakit :: nat
  persentase_sehat :: number
  persentase_sakit :: number

text \<open>\<^verbatim>\<open>round((count / total * 100), 2) if total > 0 else 0\<close>\<close>

definition persentase :: "nat \<Rightarrow> nat \<Rightarrow> py_error + number" where
  "persentase count_n total_n =
     (if total_n > 0
      then (case truediv count_n total_n of
              Inl err \<Rightarrow> Inl err
            | Inr x \<Rightarrow> Inr (PyFloat (round_float (float_mul x 100) 2)))
      else Inr (PyInt 0))"

text \<open>
  The endpoint \<^verbatim>\<open>GET /statistik\<close>. It catches nothing, so a Python exception in it
  would be answered by the framework with 500.
\<close>

definition get_statistics :: "state \<Rightarrow> http_error + statistics" where
  "get_statistics s =
     (let total_n = length (rows s);
          sehat = length (filter (\<lambda>r. hasil r = 1) (rows s));
          sakit = length (filter (\<lambda>r. hasil r = 0) (rows s))
      in case (persentase sehat total_n, persentase sakit total_n) of
           (Inr ps, Inr pk) \<Rightarrow>
             Inr \<lparr>st_total_data = total_n, status_sehat = sehat, status_sakit = sakit,
                  persentase_sehat = ps, persentase_sakit = pk\<rparr>
         | _ \<Rightarrow> Inl (HTTPException 500 InternalServerError))"

subsection \<open>The application\<close>

text \<open>
  The routes. \<open>skip\<close> and \<open>limit\<close> are optional query parameters with the defaults 0 and
  100.
\<close>

datatype request =
  Root
| Upload upload_file int
| GetAllData "int option" "int option"
| GetDataById int
| GetByStatus int
| GetStatistics

datatype response =
  RootResponse timestamp
| UploadResponse json_response
| AllDataResponse all_data
| DataResponse data
| StatusResponse status_data
| StatisticsResponse statistics

definition root :: "env \<Rightarrow> timestamp" where
  "root e = now e"

definition app :: "env \<Rightarrow> request \<Rightarrow> state \<Rightarrow> (http_error + response) \<times> state" where
  "app e req s =
     (case req of
        Root \<Rightarrow> (Inr (RootResponse (root e)), s)
      | Upload f h \<Rightarrow> (case upload_data e f h s of (r, s') \<Rightarrow> (map_sum id UploadResponse r, s'))
      | GetAllData skip limit \<Rightarrow>
          (map_sum id AllDataResponse
             (get_all_data (case skip of None \<Rightarrow> 0 | Some k \<Rightarrow> k)
                           (case limit of None \<Rightarrow> 100 | Some l \<Rightarrow> l) s), s)
      | GetDataById i \<Rightarrow> (map_sum id DataResponse (get_data_by_id i s), s)
      | GetByStatus h \<Rightarrow> (map_sum id StatusResponse (get_by_status h s), s)
      | GetStatistics \<Rightarrow> (map_sum id StatisticsResponse (get_statistics s), s))"


text \<open>A history of requests, each with what the world did during it.\<close>

fun run :: "(env \<times> request) list \<Rightarrow> state \<Rightarrow> state" where
  "run [] s = s"
| "run ((e, req) # rest) s = run rest (snd (app e req s))"

text \<open>The empty table of a fresh database, beside whatever files there are.\<close>

definition empty_table :: "(string \<rightharpoonup> bytes) \<Rightarrow> state" where
  "empty_table fs = \<lparr>rows = [], auto_increment = 1, files = fs\<rparr>"

subsection \<open>The specification's words\<close>

text \<open>The extension of a file name: the suffix after the last separator.\<close>

definition suffix_after_last :: "char \<Rightarrow> string \<Rightarrow> string" where
  "suffix_after_last sep s = rev (takeWhile (\<lambda>c. c \<noteq> sep) (rev s))"

text \<open>
  The extension is one of jpg, jpeg, png, bmp, compared without regard to case: both
  sides of the comparison are lowered.
\<close>

definition extension_allowed :: "string \<Rightarrow> bool" where
  "extension_allowed name \<longleftrightarrow>
     (\<exists>a \<in> allowed_extensions. lower (suffix_after_last (CHR ''.'') name) = lower a)"

text \<open>The status code of the answer to an upload.\<close>

definition upload_status :: "http_error + json_response \<Rightarrow> nat" where
  "upload_status a = (case a of Inl err \<Rightarrow> status_code err | Inr r \<Rightarrow> response_code r)"

text \<open>Every row carries the label 0 or 1.\<close>

definition labels_binary :: "state \<Rightarrow> bool" where
  "labels_binary s \<longleftrightarrow> (\<forall>r \<in> set (rows s). hasil r \<in> {0, 1})"

text \<open>Every row's path names a file that is there.\<close>

definition paths_written :: "state \<Rightarrow> bool" where
  "paths_written s \<longleftrightarrow> (\<forall>r \<in> set (rows s). path r \<in> dom (files s))"

text \<open>Descending by id.\<close>

definition id_descending :: "klasifikasi list \<Rightarrow> bool" where
  "id_descending rs \<longleftrightarrow> sorted_wrt (\<lambda>a b. id_col b \<le> id_col a) rs"

text \<open>
  A count as a percentage of the total, \<^verbatim>\<open>round(count / total * 100, 2)\<close> in Python's
  arithmetic, and 0 when the total is zero.
\<close>

definition percentage :: "nat \<Rightarrow> nat \<Rightarrow> number" where
  "percentage c n =
     (if n = 0 then PyInt 0
      else PyFloat (round_float (float_mul (to_float (of_nat c / of_nat n)) 100) 2))"

subsection \<open>Example inputs\<close>

text \<open>A world in which nothing raises, at time \<open>t\<close>.\<close>

definition calm :: "timestamp \<Rightarrow> env" where
  "calm t = \<lparr>now = t, file_io = Written, db_io = Committed\<rparr>"

definition leaf_png :: upload_file where
  "leaf_png = \<lparr>filename = ''leaf.png'', file_content = ''PNG''\<rparr>"

definition stem_jpg :: upload_file where
  "stem_jpg = \<lparr>filename = ''stem.JPG'', file_content = ''JFIF''\<rparr>"

definition fruit_bmp :: upload_file where
  "fruit_bmp = \<lparr>filename = ''fruit.bmp'', file_content = ''BM''\<rparr>"

text \<open>Three uploads into a fresh database: their rows get the ids 1, 2 and 3.\<close>

definition three_uploads :: state where
  "three_uploads =
     run [(calm 10, Upload leaf_png 1), (calm 20, Upload stem_jpg 0), (calm 30, Upload fruit_bmp 1)]
       (empty_table Map.empty)"

text \<open>
  An upload of \<open>leaf.png\<close>, and a second upload under the same name whose copy raises
  after one byte.
\<close>

definition failed_overwrite :: state where
  "failed_overwrite =
     run [(calm 10, Upload leaf_png 1),
          (\<lparr>now = 20, file_io = CopyRaises 1 ''[Errno 28] No space left on device'',
            db_io = Committed\<rparr>, Upload leaf_png 0)]
       (empty_table Map.empty)"

section \<open>Properties\<close>

subsection \<open>File names and extensions\<close>

lemma split_not_Nil: "split s sep \<noteq> []"
  by (induction s) (auto split: list.splits)

lemma split_no_sep: "sep \<notin> set s \<Longrightarrow> split s sep = [s]"
  by (induction s) auto

lemma length_split: "length (split s sep) = Suc (length (filter (\<lambda>c. c = sep) s))"
  by (induction s) (auto split: list.splits)

lemma last_split: "last (split s sep) = suffix_after_last sep s"
proof (induction s)
  case Nil
  show ?case by (simp add: suffix_after_last_def)
next
  case (Cons c cs)
  show ?case
  proof (cases "sep \<in> set cs")
    case True
    then have "suffix_after_last sep (c # cs) = suffix_after_last sep cs"
      by (auto simp add: suffix_after_last_def takeWhile_append)
    moreover have "filter (\<lambda>c. c = sep) cs \<noteq> []"
      using True by (simp add: filter_empty_conv)
    then have "2 \<le> length (split cs sep)"
      by (cases "filter (\<lambda>c. c = sep) cs") (simp_all add: length_split)
    then have "last (split (c # cs) sep) = last (split cs sep)"
      by (auto split: list.splits)
    ultimately show ?thesis using Cons by simp
  next
    case False
    then have "takeWhile (\<lambda>c. c \<noteq> sep) (rev cs) = rev cs"
      by (auto simp add: takeWhile_eq_all_conv)
    with False have "suffix_after_last sep (c # cs) = (if c = sep then cs else c # cs)"
      by (auto simp add: suffix_after_last_def takeWhile_append)
    then show ?thesis using split_no_sep [OF False] by simp
  qed
qed

lemma file_extension_suffix:
  "file_extension name = lower (suffix_after_last (CHR ''.'') name)"
  by (simp add: file_extension_def last_split)

lemma lower_jpg: "lower ''jpg'' = ''jpg''"
  by code_simp

lemma lower_jpeg: "lower ''jpeg'' = ''jpeg''"
  by code_simp

lemma lower_png: "lower ''png'' = ''png''"
  by code_simp

lemma lower_bmp: "lower ''bmp'' = ''bmp''"
  by code_simp

lemma lower_allowed: "a \<in> allowed_extensions \<Longrightarrow> lower a = a"
  by (auto simp add: allowed_extensions_def lower_jpg lower_jpeg lower_png lower_bmp)

lemma extension_allowed_iff:
  "extension_allowed name \<longleftrightarrow> file_extension name \<in> allowed_extensions"
  by (auto simp add: extension_allowed_def file_extension_suffix lower_allowed)

subsection \<open>Upload: validation\<close>

text \<open>
  Claim C1. An upload whose file name has an extension (the suffix after the last dot,
  compared without regard to case) outside jpg, jpeg, png, bmp, or whose label is neither
  0 nor 1, is answered with status 400, and the state it returns is the state it was given:
  no file is written or changed and no row is inserted, whatever the world would have done.
\<close>

theorem upload_data_invalid:
  assumes "\<not> extension_allowed (filename f) \<or> h \<notin> {0, 1}"
  shows "\<exists>d \<in> {FileTypeTidakDidukung, NilaiHasil}.
           upload_data e f h s = (Inl (HTTPException 400 d), s)"
  using assms by (auto simp add: upload_data_def extension_allowed_iff)

theorem upload_data_invalid_witness:
  "\<not> extension_allowed (filename \<lparr>filename = ''leaf.gif'', file_content = ''GIF89a''\<rparr>)
   \<and> (\<exists>d \<in> {FileTypeTidakDidukung, NilaiHasil}.
         upload_data \<lparr>now = 7, file_io = Written, db_io = Committed\<rparr>
           \<lparr>filename = ''leaf.gif'', file_content = ''GIF89a''\<rparr> 1 (empty_table Map.empty)
         = (Inl (HTTPException 400 d), empty_table Map.empty))"
proof -
  have "file_extension ''leaf.gif'' = ''gif''"
    by code_simp
  then have h: "\<not> extension_allowed (filename \<lparr>filename = ''leaf.gif'', file_content = ''GIF89a''\<rparr>)"
    by (simp add: extension_allowed_iff allowed_extensions_def)
  then have "\<not> extension_allowed (filename \<lparr>filename = ''leaf.gif'', file_content = ''GIF89a''\<rparr>)
      \<or> (1 :: int) \<notin> {0, 1}"
    by simp
  from h upload_data_invalid [OF this] show ?thesis
    by blast
qed

subsection \<open>Upload: a created row can be read back\<close>

lemma find_snoc_fresh:
  "\<forall>x \<in> set xs. \<not> P x \<Longrightarrow> P y \<Longrightarrow> find P (xs @ [y]) = Some y"
  by (induction xs) auto

lemma upload_data_created:
  assumes "file_extension (filename f) \<in> allowed_extensions" and "h \<in> {0, 1}"
    and "file_io e = Written" and "db_io e = Committed"
  shows "upload_data e f h s =
    (Inr (JSONResponse 201
       (render \<lparr>id_col = auto_increment s, path = UPLOAD_DIR @ ''/'' @ filename f, hasil = h,
                created_at = now e, updated_at = now e\<rparr>)),
     s\<lparr>files := (files s)(UPLOAD_DIR @ ''/'' @ filename f \<mapsto> file_content f),
       rows := rows s @ [\<lparr>id_col = auto_increment s, path = UPLOAD_DIR @ ''/'' @ filename f,
                          hasil = h, created_at = now e, updated_at = now e\<rparr>],
       auto_increment := auto_increment s + 1\<rparr>)"
  using assms by (simp add: upload_data_def save_file_def add_commit_refresh_def Let_def)

lemma upload_data_raises:
  assumes "file_extension (filename f) \<in> allowed_extensions" and "h \<in> {0, 1}"
    and "file_io e \<noteq> Written \<or> db_io e \<noteq> Committed"
  shows "\<exists>m s'. upload_data e f h s = (Inl (HTTPException 500 (Error m)), s')"
  using assms
  by (cases "file_io e"; cases "db_io e")
     (simp_all add: upload_data_def save_file_def add_commit_refresh_def Let_def)

lemma primary_key_empty_table: "primary_key (empty_table fs)"
  by (simp add: primary_key_def empty_table_def)

lemma extension_allowed_leaf_png: "extension_allowed (filename leaf_png)"
proof -
  have "file_extension ''leaf.png'' = ''png''"
    by code_simp
  then show ?thesis
    by (simp add: extension_allowed_iff allowed_extensions_def leaf_png_def)
qed

text \<open>
  Claim C2, as the code has it. A valid upload (extension allowed, label 0 or 1) during
  which neither the write of the file nor the commit nor the refresh raises, on a table that
  keeps its primary key, is answered with status 201 and the created record; the record
  carries the path \<open>uploads/\<close> followed by the file name and the label given, and reading
  the returned id back with get-by-id yields that same record. When the write, the commit or
  the refresh raises, the valid upload is answered with status 500 instead.
\<close>

theorem upload_then_get_data_by_id:
  assumes "extension_allowed (filename f)" and "h \<in> {0, 1}" and "primary_key s"
  shows "(file_io e = Written \<and> db_io e = Committed \<longrightarrow>
            (\<exists>r s'. upload_data e f h s = (Inr (JSONResponse 201 r), s')
               \<and> d_path r = UPLOAD_DIR @ ''/'' @ filename f
               \<and> d_hasil r = (if h = 1 then ''Sehat'' else ''Sakit'')
               \<and> get_data_by_id (d_id r) s' = Inr r))
       \<and> (file_io e \<noteq> Written \<or> db_io e \<noteq> Committed \<longrightarrow>
            (\<exists>m s'. upload_data e f h s = (Inl (HTTPException 500 (Error m)), s')))"
proof (intro conjI impI)
  assume io: "file_io e = Written \<and> db_io e = Committed"
  let ?new = "\<lparr>id_col = auto_increment s, path = UPLOAD_DIR @ ''/'' @ filename f, hasil = h,
                created_at = now e, updated_at = now e\<rparr>"
  let ?s' = "s\<lparr>files := (files s)(UPLOAD_DIR @ ''/'' @ filename f \<mapsto> file_content f),
       rows := rows s @ [?new], auto_increment := auto_increment s + 1\<rparr>"
  have up: "upload_data e f h s = (Inr (JSONResponse 201 (render ?new)), ?s')"
    using assms(1,2) io by (simp add: upload_data_created extension_allowed_iff)
  have "\<forall>r \<in> set (rows s). \<not> id_col r = auto_increment s"
    using assms(3) by (auto simp add: primary_key_def)
  then have "find (\<lambda>r. id_col r = auto_increment s) (rows s @ [?new]) = Some ?new"
    by (rule find_snoc_fresh) simp
  then have "get_data_by_id (d_id (render ?new)) ?s' = Inr (render ?new)"
    by (simp add: get_data_by_id_def render_def)
  moreover have "d_path (render ?new) = UPLOAD_DIR @ ''/'' @ filename f"
    and "d_hasil (render ?new) = (if h = 1 then ''Sehat'' else ''Sakit'')"
    by (simp_all add: render_def)
  ultimately show "\<exists>r s'. upload_data e f h s = (Inr (JSONResponse 201 r), s')
               \<and> d_path r = UPLOAD_DIR @ ''/'' @ filename f
               \<and> d_hasil r = (if h = 1 then ''Sehat'' else ''Sakit'')
               \<and> get_data_by_id (d_id r) s' = Inr r"
    using up by blast
next
  assume "file_io e \<noteq> Written \<or> db_io e \<noteq> Committed"
  then show "\<exists>m s'. upload_data e f h s = (Inl (HTTPException 500 (Error m)), s')"
    using assms(1,2) by (simp add: upload_data_raises extension_allowed_iff)
qed

theorem upload_then_get_data_by_id_witness:
  "extension_allowed (filename leaf_png) \<and> (1 :: int) \<in> {0, 1}
   \<and> primary_key (empty_table Map.empty)
   \<and> file_io (calm 10) = Written \<and> db_io (calm 10) = Committed
   \<and> (\<exists>r s'. upload_data (calm 10) leaf_png 1 (empty_table Map.empty)
                = (Inr (JSONResponse 201 r), s')
         \<and> d_path r = UPLOAD_DIR @ ''/'' @ filename leaf_png
         \<and> d_hasil r = ''Sehat''
         \<and> get_data_by_id (d_id r) s' = Inr r)"
proof -
  have a: "extension_allowed (filename leaf_png)"
    by (rule extension_allowed_leaf_png)
  have b: "(1 :: int) \<in> {0, 1}"
    by simp
  have c: "primary_key (empty_table Map.empty)"
    by (rule primary_key_empty_table)
  have d: "file_io (calm 10) = Written \<and> db_io (calm 10) = Committed"
    by (simp add: calm_def)
  from upload_then_get_data_by_id [OF a b c, of "calm 10"] d
  have "\<exists>r s'. upload_data (calm 10) leaf_png 1 (empty_table Map.empty)
                = (Inr (JSONResponse 201 r), s')
         \<and> d_path r = UPLOAD_DIR @ ''/'' @ filename leaf_png
         \<and> d_hasil r = ''Sehat''
         \<and> get_data_by_id (d_id r) s' = Inr r"
    by simp
  with a b c d show ?thesis
    by blast
qed

text \<open>
  The claim as the specification words it promises 201 for every valid upload. The file
  name \<open>2024/leaf.png\<close> has an allowed extension, but the directory \<open>uploads/2024\<close>
  does not exist, \<^verbatim>\<open>open\<close> raises, and the answer is 500.
\<close>

theorem upload_valid_not_created:
  "extension_allowed ''2024/leaf.png'' \<and> (1 :: int) \<in> {0, 1}
   \<and> upload_data
        \<lparr>now = 10, file_io = OpenRaises ''[Errno 2] No such file or directory'',
         db_io = Committed\<rparr>
        \<lparr>filename = ''2024/leaf.png'', file_content = ''PNG''\<rparr> 1 (empty_table Map.empty)
     = (Inl (HTTPException 500 (Error ''[Errno 2] No such file or directory'')),
        empty_table Map.empty)"
proof -
  have "file_extension ''2024/leaf.png'' = ''png''"
    by code_simp
  then have "file_extension ''2024/leaf.png'' \<in> allowed_extensions"
    by (simp add: allowed_extensions_def)
  then show ?thesis
    by (simp add: extension_allowed_iff upload_data_def save_file_def)
qed

subsection \<open>Get by id\<close>

lemma rows_three_uploads:
  "rows three_uploads =
     [\<lparr>id_col = 1, path = ''uploads/leaf.png'', hasil = 1, created_at = 10, updated_at = 10\<rparr>,
      \<lparr>id_col = 2, path = ''uploads/stem.JPG'', hasil = 0, created_at = 20, updated_at = 20\<rparr>,
      \<lparr>id_col = 3, path = ''uploads/fruit.bmp'', hasil = 1, created_at = 30, updated_at = 30\<rparr>]"
  by code_simp

lemma auto_increment_three_uploads: "auto_increment three_uploads = 4"
  by code_simp

lemma find_unique:
  "distinct (map f xs) \<Longrightarrow> x \<in> set xs \<Longrightarrow> find (\<lambda>y. f y = f x) xs = Some x"
  by (induction xs) (auto simp add: image_iff)

text \<open>
  Claim C6. Get-by-id answers 404 exactly when no row has the id; it raises nothing else;
  and on a table that keeps its primary key, a row with the id is the one returned.
\<close>

theorem get_data_by_id_found_or_404:
  "(get_data_by_id i s = Inl (HTTPException 404 DataTidakDitemukan)
      \<longleftrightarrow> (\<forall>r \<in> set (rows s). id_col r \<noteq> i))
   \<and> (primary_key s \<longrightarrow>
        (\<forall>r \<in> set (rows s). id_col r = i \<longrightarrow> get_data_by_id i s = Inr (render r)))
   \<and> (\<forall>err. get_data_by_id i s = Inl err \<longrightarrow> err = HTTPException 404 DataTidakDitemukan)"
proof (intro conjI allI impI ballI)
  show "get_data_by_id i s = Inl (HTTPException 404 DataTidakDitemukan)
      \<longleftrightarrow> (\<forall>r \<in> set (rows s). id_col r \<noteq> i)"
  proof (cases "find (\<lambda>r. id_col r = i) (rows s)")
    case None
    then have "\<forall>r \<in> set (rows s). id_col r \<noteq> i"
      by (auto simp add: find_None_iff)
    with None show ?thesis
      by (simp add: get_data_by_id_def)
  next
    case (Some x)
    then have "x \<in> set (rows s) \<and> id_col x = i"
      by (auto simp add: find_Some_iff in_set_conv_nth)
    with Some show ?thesis
      by (auto simp add: get_data_by_id_def)
  qed
next
  fix r
  assume "primary_key s" and "r \<in> set (rows s)" and "id_col r = i"
  then have "find (\<lambda>y. id_col y = i) (rows s) = Some r"
    using find_unique [of id_col "rows s" r] by (auto simp add: primary_key_def)
  then show "get_data_by_id i s = Inr (render r)"
    by (simp add: get_data_by_id_def)
next
  fix err
  assume "get_data_by_id i s = Inl err"
  then show "err = HTTPException 404 DataTidakDitemukan"
    by (auto simp add: get_data_by_id_def split: option.splits)
qed

lemma primary_key_three_uploads: "primary_key three_uploads"
  by (simp add: primary_key_def rows_three_uploads auto_increment_three_uploads)

theorem get_data_by_id_found_or_404_witness:
  "get_data_by_id 7 three_uploads = Inl (HTTPException 404 DataTidakDitemukan)
   \<and> primary_key three_uploads
   \<and> get_data_by_id 2 three_uploads
       = Inr \<lparr>d_id = 2, d_path = ''uploads/stem.JPG'', d_hasil = ''Sakit'',
              d_created_at = 20, d_updated_at = 20\<rparr>"
proof -
  note t = get_data_by_id_found_or_404 [of _ three_uploads]
  have "\<forall>r \<in> set (rows three_uploads). id_col r \<noteq> 7"
    by (simp add: rows_three_uploads)
  with t [of 7] have a: "get_data_by_id 7 three_uploads = Inl (HTTPException 404 DataTidakDitemukan)"
    by blast
  have b: "primary_key three_uploads"
    by (rule primary_key_three_uploads)
  let ?r = "\<lparr>id_col = 2, path = ''uploads/stem.JPG'', hasil = 0, created_at = 20, updated_at = 20\<rparr>"
  have "?r \<in> set (rows three_uploads)" and "id_col ?r = 2"
    by (simp_all add: rows_three_uploads)
  with t [of 2] b have "get_data_by_id 2 three_uploads = Inr (render ?r)"
    by blast
  then have "get_data_by_id 2 three_uploads
       = Inr \<lparr>d_id = 2, d_path = ''uploads/stem.JPG'', d_hasil = ''Sakit'',
              d_created_at = 20, d_updated_at = 20\<rparr>"
    by (simp add: render_def)
  with a b show ?thesis
    by blast
qed

subsection \<open>File names without a dot\<close>

lemma upload_status_400:
  "upload_status (fst (upload_data e f h s)) = 400
     \<longleftrightarrow> file_extension (filename f) \<notin> allowed_extensions \<or> h \<notin> {0, 1}"
  by (cases "file_io e"; cases "db_io e")
     (auto simp add: upload_data_def upload_status_def save_file_def add_commit_refresh_def Let_def)

text \<open>
  Claim C9. When the file name contains no dot, the extension the upload checks is the whole
  file name, lowered; with a label of 0 or 1 the upload gets past validation (its answer is
  not 400) if and only if the whole name, lowered, is one of jpg, jpeg, png, bmp. A file
  named exactly \<open>png\<close> passes.
\<close>

theorem filename_without_dot:
  assumes "CHR ''.'' \<notin> set (filename f)"
  shows "file_extension (filename f) = lower (filename f)
     \<and> (h \<in> {0, 1} \<longrightarrow>
          (upload_status (fst (upload_data e f h s)) \<noteq> 400
             \<longleftrightarrow> lower (filename f) \<in> allowed_extensions))"
proof -
  have "file_extension (filename f) = lower (filename f)"
    using assms by (simp add: file_extension_def split_no_sep)
  then show ?thesis
    by (simp add: upload_status_400)
qed

theorem filename_without_dot_witness:
  "CHR ''.'' \<notin> set (filename \<lparr>filename = ''png'', file_content = ''PNG''\<rparr>)
   \<and> file_extension ''png'' = ''png''
   \<and> upload_status
        (fst (upload_data (calm 10) \<lparr>filename = ''png'', file_content = ''PNG''\<rparr> 1
           (empty_table Map.empty))) \<noteq> 400"
proof -
  have a: "CHR ''.'' \<notin> set (filename \<lparr>filename = ''png'', file_content = ''PNG''\<rparr>)"
    by simp
  have b: "lower ''png'' \<in> allowed_extensions"
    by (simp add: lower_png allowed_extensions_def)
  from filename_without_dot [OF a, of 1 "calm 10" "empty_table Map.empty"] b lower_png a
  show ?thesis
    by simp
qed

subsection \<open>The reads are functions of the state\<close>


text \<open>The health check is not one of them: it answers with the clock.\<close>

lemma root_reads_clock: "fst (app e Root s) = Inr (RootResponse (now e))"
  by (simp add: app_def root_def)


subsection \<open>What an upload does to the state\<close>

text \<open>
  An upload leaves the state as it was, or writes the one file, or writes the file in full
  and appends the one row.
\<close>

lemma upload_data_state:
  "snd (upload_data e f h s) = s
   \<or> (\<exists>bs. snd (upload_data e f h s)
            = s\<lparr>files := (files s)(UPLOAD_DIR @ ''/'' @ filename f \<mapsto> bs)\<rparr>)
   \<or> (h \<in> {0, 1} \<and> file_io e = Written \<and> db_io e \<noteq> CommitRaises m
       \<and> snd (upload_data e f h s)
           = s\<lparr>files := (files s)(UPLOAD_DIR @ ''/'' @ filename f \<mapsto> file_content f),
               rows := rows s @ [\<lparr>id_col = auto_increment s,
                                  path = UPLOAD_DIR @ ''/'' @ filename f, hasil = h,
                                  created_at = now e, updated_at = now e\<rparr>],
               auto_increment := auto_increment s + 1\<rparr>)"
  by (cases "file_io e"; cases "db_io e")
     (auto simp add: upload_data_def save_file_def add_commit_refresh_def Let_def)

lemma snd_app:
  "snd (app e req s) = (case req of Upload f h \<Rightarrow> snd (upload_data e f h s) | _ \<Rightarrow> s)"
  by (cases req) (simp_all add: app_def split: prod.splits)

lemma labels_binary_upload: "labels_binary s \<Longrightarrow> labels_binary (snd (upload_data e f h s))"
  using upload_data_state [of e f h s undefined]
  by (auto simp add: labels_binary_def)

lemma labels_binary_app: "labels_binary s \<Longrightarrow> labels_binary (snd (app e req s))"
  by (simp add: snd_app labels_binary_upload split: request.splits)

lemma labels_binary_run: "labels_binary s \<Longrightarrow> labels_binary (run history s)"
  by (induction history s rule: run.induct) (simp_all add: labels_binary_app)

lemma paths_written_upload: "paths_written s \<Longrightarrow> paths_written (snd (upload_data e f h s))"
  using upload_data_state [of e f h s undefined]
  by (auto simp add: paths_written_def)

lemma paths_written_app: "paths_written s \<Longrightarrow> paths_written (snd (app e req s))"
  by (simp add: snd_app paths_written_upload split: request.splits)

lemma paths_written_run: "paths_written s \<Longrightarrow> paths_written (run history s)"
  by (induction history s rule: run.induct) (simp_all add: paths_written_app)

lemma primary_key_upload: "primary_key s \<Longrightarrow> primary_key (snd (upload_data e f h s))"
  using upload_data_state [of e f h s undefined]
  by (fastforce simp add: primary_key_def)

lemma primary_key_app: "primary_key s \<Longrightarrow> primary_key (snd (app e req s))"
  by (simp add: snd_app primary_key_upload split: request.splits)

lemma primary_key_run: "primary_key s \<Longrightarrow> primary_key (run history s)"
  by (induction history s rule: run.induct) (simp_all add: primary_key_app)

lemma count_labels:
  "\<forall>r \<in> set rs. hasil r \<in> {0, 1}
   \<Longrightarrow> length (filter (\<lambda>r. hasil r = 1) rs) + length (filter (\<lambda>r. hasil r = 0) rs) = length rs"
  by (induction rs) auto

lemma persentase_Inr: "persentase c n = Inr (percentage c n)"
  by (simp add: persentase_def percentage_def truediv_def)

lemma get_statistics_Inr:
  "get_statistics s =
     Inr \<lparr>st_total_data = length (rows s),
          status_sehat = length (filter (\<lambda>r. hasil r = 1) (rows s)),
          status_sakit = length (filter (\<lambda>r. hasil r = 0) (rows s)),
          persentase_sehat = percentage (length (filter (\<lambda>r. hasil r = 1) (rows s))) (length (rows s)),
          persentase_sakit = percentage (length (filter (\<lambda>r. hasil r = 0) (rows s))) (length (rows s))\<rparr>"
  by (simp add: get_statistics_def persentase_Inr Let_def)

subsection \<open>Labels\<close>

text \<open>
  Claim C10. From a table whose rows all carry the label 0 or 1 (the empty table of a fresh
  database is one), every history of requests, whatever the world does during them, leads to
  a table whose rows all carry the label 0 or 1: the upload is the only request that adds a
  row, it checks the label first, and no request changes a row. The statistics of such a
  table satisfy \<open>status_sehat + status_sakit = total_data\<close>.
\<close>

theorem labels_stay_binary:
  assumes "labels_binary s"
  shows "labels_binary (run history s)
     \<and> (\<exists>st. get_statistics (run history s) = Inr st
           \<and> status_sehat st + status_sakit st = st_total_data st)"
proof -
  have l: "labels_binary (run history s)"
    using assms by (rule labels_binary_run)
  then have "length (filter (\<lambda>r. hasil r = 1) (rows (run history s)))
      + length (filter (\<lambda>r. hasil r = 0) (rows (run history s))) = length (rows (run history s))"
    by (simp add: labels_binary_def count_labels)
  with l show ?thesis
    by (simp add: get_statistics_Inr)
qed

theorem labels_stay_binary_witness:
  "labels_binary (empty_table Map.empty)
   \<and> labels_binary three_uploads
   \<and> (\<exists>st. get_statistics three_uploads = Inr st
         \<and> status_sehat st + status_sakit st = st_total_data st)"
proof -
  have a: "labels_binary (empty_table Map.empty)"
    by (simp add: labels_binary_def empty_table_def)
  from a labels_stay_binary [OF a,
    of "[(calm 10, Upload leaf_png 1), (calm 20, Upload stem_jpg 0), (calm 30, Upload fruit_bmp 1)]"]
  show ?thesis
    by (simp only: three_uploads_def) 
qed

subsection \<open>Upload: the file is written before the row is committed\<close>

text \<open>
  Claim C7, as the code has it. For a valid upload: a row is inserted only when the file
  has been written in full, and at that moment the file under the row's path holds exactly
  the uploaded bytes; when the write raises, no row is inserted and the answer is 500; when
  the write succeeds and the commit raises, the answer is 500 with the cause, the table is
  as it was and the file that was written stays behind without a row. Through every history
  of requests, every row's path names a file that is there, if that was so at the start.
\<close>

theorem upload_write_then_commit:
  assumes "extension_allowed (filename f)" and "h \<in> {0, 1}"
  shows "(rows (snd (upload_data e f h s)) \<noteq> rows s \<longrightarrow>
            file_io e = Written
            \<and> files (snd (upload_data e f h s)) (UPLOAD_DIR @ ''/'' @ filename f)
                = Some (file_content f)
            \<and> (\<exists>new. rows (snd (upload_data e f h s)) = rows s @ [new]
                  \<and> path new = UPLOAD_DIR @ ''/'' @ filename f))
     \<and> (file_io e \<noteq> Written \<longrightarrow>
            rows (snd (upload_data e f h s)) = rows s
            \<and> upload_status (fst (upload_data e f h s)) = 500)
     \<and> (file_io e = Written \<and> db_io e = CommitRaises m \<longrightarrow>
            upload_data e f h s
            = (Inl (HTTPException 500 (Error m)),
               s\<lparr>files := (files s)(UPLOAD_DIR @ ''/'' @ filename f \<mapsto> file_content f)\<rparr>))
     \<and> (paths_written s \<longrightarrow> paths_written (run history s))"
proof -
  have inserted: "rows (snd (upload_data e f h s)) \<noteq> rows s \<longrightarrow>
            file_io e = Written
            \<and> files (snd (upload_data e f h s)) (UPLOAD_DIR @ ''/'' @ filename f)
                = Some (file_content f)
            \<and> (\<exists>new. rows (snd (upload_data e f h s)) = rows s @ [new]
                  \<and> path new = UPLOAD_DIR @ ''/'' @ filename f)"
    using upload_data_state [of e f h s undefined] by auto
  have write_raises: "file_io e \<noteq> Written \<longrightarrow>
            rows (snd (upload_data e f h s)) = rows s
            \<and> upload_status (fst (upload_data e f h s)) = 500"
    using assms
    by (cases "file_io e")
       (simp_all add: upload_data_def save_file_def upload_status_def extension_allowed_iff)
  have commit_raises: "file_io e = Written \<and> db_io e = CommitRaises m \<longrightarrow>
            upload_data e f h s
            = (Inl (HTTPException 500 (Error m)),
               s\<lparr>files := (files s)(UPLOAD_DIR @ ''/'' @ filename f \<mapsto> file_content f)\<rparr>)"
    using assms
    by (simp add: upload_data_def save_file_def add_commit_refresh_def extension_allowed_iff)
  have ever: "paths_written s \<longrightarrow> paths_written (run history s)"
    by (simp add: paths_written_run)
  from inserted write_raises commit_raises ever show ?thesis
    by (intro conjI)
qed

theorem upload_write_then_commit_witness:
  "extension_allowed (filename leaf_png) \<and> (1 :: int) \<in> {0, 1}
   \<and> upload_data \<lparr>now = 10, file_io = Written, db_io = CommitRaises ''Lost connection''\<rparr>
        leaf_png 1 (empty_table Map.empty)
      = (Inl (HTTPException 500 (Error ''Lost connection'')),
         (empty_table Map.empty)
           \<lparr>files := (files (empty_table Map.empty))
                       (UPLOAD_DIR @ ''/'' @ filename leaf_png \<mapsto> file_content leaf_png)\<rparr>)
   \<and> paths_written (empty_table Map.empty)
   \<and> paths_written three_uploads"
proof -
  have a: "extension_allowed (filename leaf_png)"
    by (rule extension_allowed_leaf_png)
  have b: "(1 :: int) \<in> {0, 1}"
    by simp
  have c: "paths_written (empty_table Map.empty)"
    by (simp add: paths_written_def empty_table_def)
  note t = upload_write_then_commit [OF a b,
      of "\<lparr>now = 10, file_io = Written, db_io = CommitRaises ''Lost connection''\<rparr>"
         "empty_table Map.empty" "''Lost connection''"
         "[(calm 10, Upload leaf_png 1), (calm 20, Upload stem_jpg 0), (calm 30, Upload fruit_bmp 1)]"]
  from t c have "paths_written three_uploads"
    by (simp only: three_uploads_def)
  moreover from t have "upload_data \<lparr>now = 10, file_io = Written, db_io = CommitRaises ''Lost connection''\<rparr>
        leaf_png 1 (empty_table Map.empty)
      = (Inl (HTTPException 500 (Error ''Lost connection'')),
         (empty_table Map.empty)
           \<lparr>files := (files (empty_table Map.empty))
                       (UPLOAD_DIR @ ''/'' @ filename leaf_png \<mapsto> file_content leaf_png)\<rparr>)"
    by simp
  ultimately show ?thesis
    using a b c by blast
qed

text \<open>
  The claim as the specification words it says that no committed row ever references a file
  that was not written successfully. The file is stored under the name the client gave, so a
  second upload of \<open>leaf.png\<close> opens the file of row 1 for writing; when its copy
  raises after one byte, row 1 references a file that holds that one byte.
\<close>

theorem failed_overwrite_row_1:
  "rows failed_overwrite
     = [\<lparr>id_col = 1, path = ''uploads/leaf.png'', hasil = 1, created_at = 10, updated_at = 10\<rparr>]
   \<and> files failed_overwrite ''uploads/leaf.png'' = Some ''P''
   \<and> file_content leaf_png = ''PNG''"
proof -
  have "rows failed_overwrite
     = [\<lparr>id_col = 1, path = ''uploads/leaf.png'', hasil = 1, created_at = 10, updated_at = 10\<rparr>]"
    by code_simp
  moreover have "files failed_overwrite ''uploads/leaf.png'' = Some ''P''"
    by code_simp
  moreover have "file_content leaf_png = ''PNG''"
    by (simp add: leaf_png_def)
  ultimately show ?thesis
    by simp
qed

subsection \<open>Ordering by id\<close>

lemma mset_order_by_id_desc: "mset (order_by_id_desc rs) = mset rs"
  by (simp add: order_by_id_desc_def)

lemma id_descending_order_by_id_desc: "id_descending (order_by_id_desc rs)"
  using sorted_sort_key [of id_col rs]
  by (simp add: id_descending_def order_by_id_desc_def sorted_wrt_rev sorted_map)





subsection \<open>Get by status\<close>

text \<open>
  Claim C5. For every label argument, get-by-status answers 400 when the argument is
  neither 0 nor 1; otherwise it returns the rows whose label is the argument, each as often
  as the table holds it and no other, in descending order of id, with their number.
\<close>

theorem get_by_status_result:
  "(h \<notin> {0, 1} \<longrightarrow> get_by_status h s = Inl (HTTPException 400 HasilHarus))
   \<and> (h \<in> {0, 1} \<longrightarrow>
        (\<exists>rs. get_by_status h s
                 = Inr \<lparr>filter_label = ''Status '' @ (if h = 1 then ''Sehat'' else ''Sakit''),
                        s_total_data = length rs, s_data = map render rs\<rparr>
           \<and> mset rs = filter_mset (\<lambda>r. hasil r = h) (mset (rows s))
           \<and> id_descending rs))"
proof -
  let ?rs = "order_by_id_desc (filter (\<lambda>r. hasil r = h) (rows s))"
  have "mset ?rs = filter_mset (\<lambda>r. hasil r = h) (mset (rows s))"
    by (simp add: mset_order_by_id_desc)
  moreover have "id_descending ?rs"
    by (rule id_descending_order_by_id_desc)
  moreover have "h \<in> {0, 1} \<longrightarrow> get_by_status h s
                 = Inr \<lparr>filter_label = ''Status '' @ (if h = 1 then ''Sehat'' else ''Sakit''),
                        s_total_data = length ?rs, s_data = map render ?rs\<rparr>"
    by (simp add: get_by_status_def Let_def)
  moreover have "h \<notin> {0, 1} \<longrightarrow> get_by_status h s = Inl (HTTPException 400 HasilHarus)"
    by (simp add: get_by_status_def)
  ultimately show ?thesis
    by blast
qed

lemma rows_empty_table: "rows (empty_table fs) = []"
  by (simp add: empty_table_def)

theorem get_by_status_result_witness:
  "get_by_status 2 three_uploads = Inl (HTTPException 400 HasilHarus)
   \<and> (1 :: int) \<in> {0, 1}
   \<and> get_by_status 1 three_uploads
      = Inr \<lparr>filter_label = ''Status Sehat'', s_total_data = 2,
             s_data = [\<lparr>d_id = 3, d_path = ''uploads/fruit.bmp'', d_hasil = ''Sehat'',
                         d_created_at = 30, d_updated_at = 30\<rparr>,
                       \<lparr>d_id = 1, d_path = ''uploads/leaf.png'', d_hasil = ''Sehat'',
                         d_created_at = 10, d_updated_at = 10\<rparr>]\<rparr>"
proof -
  have a: "get_by_status 2 three_uploads = Inl (HTTPException 400 HasilHarus)"
    using get_by_status_result [of 2 three_uploads] by simp
  have "get_by_status 1 three_uploads
      = Inr \<lparr>filter_label = ''Status Sehat'', s_total_data = 2,
             s_data = [\<lparr>d_id = 3, d_path = ''uploads/fruit.bmp'', d_hasil = ''Sehat'',
                         d_created_at = 30, d_updated_at = 30\<rparr>,
                       \<lparr>d_id = 1, d_path = ''uploads/leaf.png'', d_hasil = ''Sehat'',
                         d_created_at = 10, d_updated_at = 10\<rparr>]\<rparr>"
    by (simp add: get_by_status_def rows_three_uploads order_by_id_desc_def render_def)
  with a show ?thesis
    by simp
qed

subsection \<open>List\<close>






subsection \<open>The float arithmetic is accurate\<close>

text \<open>
  \<open>to_float\<close> is off by at most the fraction \<open>2\<^sup>-\<^sup>5\<^sup>3\<close> of its argument, so the
  percentage the statistics report is within half a hundredth, and \<open>2\<^sup>-\<^sup>4\<^sup>4\<close>, of the exact
  percentage.
\<close>

declare bit_length.simps [simp del]

lemma pow2_powi: "pow2 e = 2 powi e"
  by (simp add: pow2_def power_int_def inverse_eq_divide power_one_over)

lemma pow2_pos: "0 < pow2 e"
  by (simp add: pow2_powi)

lemma pow2_add: "pow2 (a + b) = pow2 a * pow2 b"
  by (simp add: pow2_powi power_int_add)

lemma pow2_nat: "pow2 (int n) = 2 ^ n"
  by (simp add: pow2_def)

lemma pow2_mono: "a \<le> b \<Longrightarrow> pow2 a \<le> pow2 b"
  by (simp add: pow2_powi power_int_increasing)

lemma bit_length_bounds:
  "0 < n \<Longrightarrow> 0 < bit_length n \<and> 2 ^ nat (bit_length n - 1) \<le> n \<and> n < 2 ^ nat (bit_length n)"
proof (induction n rule: bit_length.induct)
  case (1 n)
  show ?case
  proof (cases "n = 1")
    case True
    have "bit_length 1 = 1"
      by (simp add: bit_length.simps [of 1] bit_length.simps [of 0])
    with True show ?thesis
      by simp
  next
    case False
    with "1.prems" have pos: "0 < n div 2"
      by simp
    let ?l = "bit_length (n div 2)"
    from "1.IH" pos "1.prems"
    have l: "0 < ?l" and lo: "2 ^ nat (?l - 1) \<le> n div 2" and hi: "n div 2 < 2 ^ nat ?l"
      by simp_all
    have bl: "bit_length n = 1 + ?l"
      using "1.prems" by (simp add: bit_length.simps [of n])
    have "nat ?l = Suc (nat (?l - 1))"
      using l by linarith
    then have "(2 :: int) ^ nat ?l = 2 * 2 ^ nat (?l - 1)"
      by simp
    with lo have "2 ^ nat ?l \<le> n"
      by linarith
    moreover have "(2 :: int) ^ nat (1 + ?l) = 2 * 2 ^ nat ?l"
      using l by (simp add: nat_add_distrib)
    with hi have "n < 2 ^ nat (1 + ?l)"
      by linarith
    ultimately show ?thesis
      using bl l by simp
  qed
qed


lemma round_half_even_error: "\<bar>of_int (round_half_even x) - x\<bar> \<le> 1 / 2"
proof -
  define f where "f = \<lfloor>x\<rfloor>"
  have lo: "of_int f \<le> x" and hi: "x < of_int f + 1"
    unfolding f_def by linarith+
  have r: "round_half_even x =
      (if x - of_int f < 1 / 2 then f else if 1 / 2 < x - of_int f then f + 1
       else if even f then f else f + 1)"
    by (simp add: round_half_even_def Let_def f_def)
  show ?thesis
  proof (cases "x - of_int f < 1 / 2")
    case True
    with lo r show ?thesis
      by simp
  next
    case False
    with hi r show ?thesis
      by (cases "1 / 2 < x - of_int f"; cases "even f") simp_all
  qed
qed

lemma round_half_even_nonneg: "0 \<le> x \<Longrightarrow> 0 \<le> round_half_even x"
  by (auto simp add: round_half_even_def Let_def)

lemma exponent_bounds:
  assumes "0 < q"
  shows "pow2 (exponent q) \<le> q \<and> q < pow2 (exponent q + 1)"
proof -
  obtain a b where ab: "quotient_of q = (a, b)"
    by force
  have b: "0 < b"
    using ab by (rule quotient_of_denom_pos)
  have q: "q = of_int a / of_int b"
    using ab by (rule quotient_of_div)
  have a: "0 < a"
    using assms b q by (simp add: zero_less_divide_iff)
  let ?la = "bit_length a" and ?lb = "bit_length b"
  from bit_length_bounds [OF a]
  have la: "0 < ?la" and a_lo: "2 ^ nat (?la - 1) \<le> a" and a_hi: "a < 2 ^ nat ?la"
    by simp_all
  from bit_length_bounds [OF b]
  have lb: "0 < ?lb" and b_lo: "2 ^ nat (?lb - 1) \<le> b" and b_hi: "b < 2 ^ nat ?lb"
    by simp_all
  have qa: "q * of_int b = of_int a"
    using b q by simp
  have a_hi': "(of_int a :: rat) < pow2 ?la"
  proof -
    have "(of_int a :: rat) < of_int (2 ^ nat ?la)"
      using a_hi by (simp only: of_int_less_iff)
    then show ?thesis
      using la by (simp add: pow2_def)
  qed
  have b_lo': "pow2 (?lb - 1) \<le> (of_int b :: rat)"
  proof -
    have "(of_int (2 ^ nat (?lb - 1)) :: rat) \<le> of_int b"
      using b_lo by (simp only: of_int_le_iff)
    then show ?thesis
      using lb by (simp add: pow2_def)
  qed
  have a_lo': "pow2 (?la - 1) \<le> (of_int a :: rat)"
  proof -
    have "(of_int (2 ^ nat (?la - 1)) :: rat) \<le> of_int a"
      using a_lo by (simp only: of_int_le_iff)
    then show ?thesis
      using la by (simp add: pow2_def)
  qed
  have b_hi': "(of_int b :: rat) < pow2 ?lb"
  proof -
    have "(of_int b :: rat) < of_int (2 ^ nat ?lb)"
      using b_hi by (simp only: of_int_less_iff)
    then show ?thesis
      using lb by (simp add: pow2_def)
  qed
  have upper: "q < pow2 (?la - ?lb + 1)"
  proof -
    have "q * pow2 (?lb - 1) \<le> q * of_int b"
      using assms b_lo' by (simp add: mult_left_mono)
    also have "\<dots> < pow2 ?la"
      using qa a_hi' by simp
    also have "\<dots> = pow2 (?la - ?lb + 1) * pow2 (?lb - 1)"
      by (simp add: pow2_add [symmetric])
    finally show ?thesis
      using pow2_pos [of "?lb - 1"] by (simp only: mult_less_cancel_right_pos)
  qed
  have lower: "pow2 (?la - ?lb - 1) \<le> q"
  proof -
    have "pow2 (?la - ?lb - 1) * pow2 ?lb = pow2 (?la - 1)"
      by (simp add: pow2_add [symmetric])
    also have "\<dots> \<le> q * of_int b"
      using qa a_lo' by simp
    also have "\<dots> \<le> q * pow2 ?lb"
      using assms b_hi' by (simp add: mult_left_mono)
    finally show ?thesis
      using pow2_pos [of ?lb] by (simp only: mult_le_cancel_right_pos)
  qed
  have e: "exponent q = (if pow2 (?la - ?lb) \<le> q then ?la - ?lb else ?la - ?lb - 1)"
    by (simp add: exponent_def ab)
  show ?thesis
  proof (cases "pow2 (?la - ?lb) \<le> q")
    case True
    with e upper show ?thesis
      by simp
  next
    case False
    with e lower show ?thesis
      by simp
  qed
qed


lemma to_float_0: "to_float 0 = 0"
  by (simp add: to_float_def)

lemma to_float_pos:
  assumes "0 < q"
  shows "to_float q = of_int (round_half_even (q * pow2 (52 - exponent q))) * pow2 (exponent q - 52)"
  using assms by (simp add: to_float_def Let_def)

lemma to_float_nonneg: "0 \<le> q \<Longrightarrow> 0 \<le> to_float q"
proof (cases "q = 0")
  case True
  then show ?thesis
    by (simp add: to_float_0)
next
  case False
  assume "0 \<le> q"
  with False have q: "0 < q"
    by simp
  have "0 \<le> q * pow2 (52 - exponent q)"
    using q pow2_pos [of "52 - exponent q"] by simp
  then have "0 \<le> round_half_even (q * pow2 (52 - exponent q))"
    by (rule round_half_even_nonneg)
  then show ?thesis
    using pow2_pos [of "exponent q - 52"] by (simp add: to_float_pos [OF q])
qed

lemma to_float_error:
  assumes "0 \<le> q"
  shows "\<bar>to_float q - q\<bar> \<le> q / 2 ^ 53"
proof (cases "q = 0")
  case True
  then show ?thesis
    by (simp add: to_float_0)
next
  case False
  with assms have q: "0 < q"
    by simp
  let ?e = "exponent q"
  let ?m = "q * pow2 (52 - ?e)"
  have scale: "pow2 (52 - ?e) * pow2 (?e - 52) = 1"
    by (simp add: pow2_add [symmetric] pow2_def)
  then have "q = ?m * pow2 (?e - 52)"
    by (simp add: mult.assoc)
  then have "to_float q - q = (of_int (round_half_even ?m) - ?m) * pow2 (?e - 52)"
    by (simp add: to_float_pos [OF q] left_diff_distrib)
  then have "\<bar>to_float q - q\<bar> = \<bar>of_int (round_half_even ?m) - ?m\<bar> * pow2 (?e - 52)"
    using pow2_pos [of "?e - 52"] by (simp add: abs_mult)
  also have "\<dots> \<le> (1 / 2) * pow2 (?e - 52)"
    using round_half_even_error [of ?m] pow2_pos [of "?e - 52"]
    by (simp only: mult_le_cancel_right_pos)
  also have "\<dots> = pow2 ?e / 2 ^ 53"
  proof -
    have "pow2 ?e = pow2 (?e - 52) * pow2 52"
      by (simp add: pow2_add [symmetric])
    then show ?thesis
      by (simp add: pow2_def)
  qed
  also have "\<dots> \<le> q / 2 ^ 53"
    using exponent_bounds [OF q] by (simp add: divide_right_mono)
  finally show ?thesis .
qed

lemma percentage_accuracy:
  assumes "0 < n" and "c \<le> n"
  shows "\<exists>p. percentage c n = PyFloat p
           \<and> \<bar>p - 100 * of_nat c / of_nat n\<bar> \<le> 1 / 200 + 1 / 2 ^ 44"
proof -
  define r :: rat where "r = of_nat c / of_nat n"
  define x1 where "x1 = to_float r"
  define x2 where "x2 = to_float (x1 * 100)"
  define d where "d = round_half_even (x2 * 100)"
  define p where "p = to_float (of_int d / 100)"
  have r0: "0 \<le> r" and r1: "r \<le> 1"
    using assms by (simp_all add: r_def)
  have e1: "\<bar>x1 - r\<bar> \<le> r / 2 ^ 53"
    unfolding x1_def using r0 by (rule to_float_error)
  have x1_0: "0 \<le> x1"
    unfolding x1_def using r0 by (rule to_float_nonneg)
  have e2: "\<bar>x2 - x1 * 100\<bar> \<le> x1 * 100 / 2 ^ 53"
    unfolding x2_def using x1_0 by (intro to_float_error) simp
  have x2_0: "0 \<le> x2"
    unfolding x2_def using x1_0 by (intro to_float_nonneg) simp
  have e3: "\<bar>of_int d - x2 * 100\<bar> \<le> 1 / 2"
    unfolding d_def by (rule round_half_even_error)
  have d0: "0 \<le> d"
    unfolding d_def using x2_0 by (intro round_half_even_nonneg) simp
  have e4: "\<bar>p - of_int d / 100\<bar> \<le> of_int d / 100 / 2 ^ 53"
    unfolding p_def using d0 by (intro to_float_error) simp
  note b1 = abs_le_D1 [OF e1] abs_le_D2 [OF e1]
  note b2 = abs_le_D1 [OF e2] abs_le_D2 [OF e2]
  note b3 = abs_le_D1 [OF e3] abs_le_D2 [OF e3]
  note b4 = abs_le_D1 [OF e4] abs_le_D2 [OF e4]
  have "p - 100 * r \<le> 1 / 200 + 1 / 2 ^ 44"
    using b1 b2 b3 b4 r0 r1 by (simp; linarith)
  moreover have "- (p - 100 * r) \<le> 1 / 200 + 1 / 2 ^ 44"
    using b1 b2 b3 b4 r0 r1 by (simp; linarith)
  ultimately have "\<bar>p - 100 * r\<bar> \<le> 1 / 200 + 1 / 2 ^ 44"
    by (rule abs_leI)
  moreover have "percentage c n = PyFloat p"
    using assms
    by (simp add: percentage_def float_mul_def round_float_def p_def d_def x2_def x1_def r_def)
  ultimately show ?thesis
    by (auto simp add: r_def)
qed

text \<open>
  The percentage reported is not always the exact percentage rounded to two places: 23 of
  160 are 14.375 percent, the product \<^verbatim>\<open>23 / 160 * 100\<close> is a float just below that,
  and \<^verbatim>\<open>round\<close> gives 14.37.
\<close>

lemma percentage_23_160: "percentage 23 160 = PyFloat (to_float (1437 / 100))"
  by code_simp

lemma percentage_1_800: "percentage 1 800 = PyFloat (to_float (12 / 100))"
  by code_simp


subsection \<open>Statistics\<close>

lemma length_filter_hasil:
  "length (filter (\<lambda>r. hasil r = h) rs) = count (mset (map hasil rs)) h"
  by (induction rs) simp_all

text \<open>
  Claim C3. For every state, the statistics operation raises nothing and returns the number
  of all rows, the number of rows labelled 1 (Sehat), the number labelled 0 (Sakit), and each
  of the two as a percentage of the total, \<^verbatim>\<open>round(count / total * 100, 2)\<close> in Python's
  float arithmetic; for the empty table both percentages are the integer 0, and for any
  other table they are floats within half a hundredth, and \<open>2\<^sup>-\<^sup>4\<^sup>4\<close>, of the exact
  percentages.
\<close>

theorem get_statistics_result:
  "get_statistics s
     = Inr \<lparr>st_total_data = length (rows s),
            status_sehat = count (mset (map hasil (rows s))) 1,
            status_sakit = count (mset (map hasil (rows s))) 0,
            persentase_sehat =
              percentage (count (mset (map hasil (rows s))) 1) (length (rows s)),
            persentase_sakit =
              percentage (count (mset (map hasil (rows s))) 0) (length (rows s))\<rparr>
   \<and> (rows s = [] \<longrightarrow>
        (\<exists>st. get_statistics s = Inr st
           \<and> persentase_sehat st = PyInt 0 \<and> persentase_sakit st = PyInt 0))
   \<and> (rows s \<noteq> [] \<longrightarrow>
        (\<exists>st x y. get_statistics s = Inr st
           \<and> persentase_sehat st = PyFloat x \<and> persentase_sakit st = PyFloat y
           \<and> \<bar>x - 100 * of_nat (status_sehat st) / of_nat (st_total_data st)\<bar>
               \<le> 1 / 200 + 1 / 2 ^ 44
           \<and> \<bar>y - 100 * of_nat (status_sakit st) / of_nat (st_total_data st)\<bar>
               \<le> 1 / 200 + 1 / 2 ^ 44))"
proof -
  let ?n = "length (rows s)"
  let ?sehat = "length (filter (\<lambda>r. hasil r = 1) (rows s))"
  let ?sakit = "length (filter (\<lambda>r. hasil r = 0) (rows s))"
  let ?st = "\<lparr>st_total_data = ?n, status_sehat = ?sehat, status_sakit = ?sakit,
              persentase_sehat = percentage ?sehat ?n, persentase_sakit = percentage ?sakit ?n\<rparr>"
  have st: "get_statistics s = Inr ?st"
    by (rule get_statistics_Inr)
  have first: "get_statistics s
     = Inr \<lparr>st_total_data = length (rows s),
            status_sehat = count (mset (map hasil (rows s))) 1,
            status_sakit = count (mset (map hasil (rows s))) 0,
            persentase_sehat =
              percentage (count (mset (map hasil (rows s))) 1) (length (rows s)),
            persentase_sakit =
              percentage (count (mset (map hasil (rows s))) 0) (length (rows s))\<rparr>"
    by (simp add: st length_filter_hasil)
  have zero: "rows s = [] \<longrightarrow>
        (\<exists>st. get_statistics s = Inr st
           \<and> persentase_sehat st = PyInt 0 \<and> persentase_sakit st = PyInt 0)"
    by (simp add: st percentage_def)
  have accurate: "rows s \<noteq> [] \<longrightarrow>
        (\<exists>st x y. get_statistics s = Inr st
           \<and> persentase_sehat st = PyFloat x \<and> persentase_sakit st = PyFloat y
           \<and> \<bar>x - 100 * of_nat (status_sehat st) / of_nat (st_total_data st)\<bar>
               \<le> 1 / 200 + 1 / 2 ^ 44
           \<and> \<bar>y - 100 * of_nat (status_sakit st) / of_nat (st_total_data st)\<bar>
               \<le> 1 / 200 + 1 / 2 ^ 44)"
  proof
    assume "rows s \<noteq> []"
    then have n: "0 < ?n"
      by simp
    obtain x where x: "percentage ?sehat ?n = PyFloat x"
      and xe: "\<bar>x - 100 * of_nat ?sehat / of_nat ?n\<bar> \<le> 1 / 200 + 1 / 2 ^ 44"
      using percentage_accuracy [OF n, of ?sehat] by auto
    obtain y where y: "percentage ?sakit ?n = PyFloat y"
      and ye: "\<bar>y - 100 * of_nat ?sakit / of_nat ?n\<bar> \<le> 1 / 200 + 1 / 2 ^ 44"
      using percentage_accuracy [OF n, of ?sakit] by auto
    have "persentase_sehat ?st = PyFloat x \<and> persentase_sakit ?st = PyFloat y
        \<and> \<bar>x - 100 * of_nat (status_sehat ?st) / of_nat (st_total_data ?st)\<bar>
               \<le> 1 / 200 + 1 / 2 ^ 44
        \<and> \<bar>y - 100 * of_nat (status_sakit ?st) / of_nat (st_total_data ?st)\<bar>
               \<le> 1 / 200 + 1 / 2 ^ 44"
      using x xe y ye by simp
    with st show "\<exists>st x y. get_statistics s = Inr st
           \<and> persentase_sehat st = PyFloat x \<and> persentase_sakit st = PyFloat y
           \<and> \<bar>x - 100 * of_nat (status_sehat st) / of_nat (st_total_data st)\<bar>
               \<le> 1 / 200 + 1 / 2 ^ 44
           \<and> \<bar>y - 100 * of_nat (status_sakit st) / of_nat (st_total_data st)\<bar>
               \<le> 1 / 200 + 1 / 2 ^ 44"
      by blast
  qed
  from first zero accurate show ?thesis
    by (intro conjI)
qed

lemma percentage_2_3: "percentage 2 3 = PyFloat (to_float (6667 / 100))"
  by code_simp

lemma percentage_1_3: "percentage (Suc 0) 3 = PyFloat (to_float (3333 / 100))"
  by code_simp

theorem get_statistics_result_witness:
  "get_statistics three_uploads
     = Inr \<lparr>st_total_data = 3, status_sehat = 2, status_sakit = 1,
            persentase_sehat = PyFloat (to_float (6667 / 100)),
            persentase_sakit = PyFloat (to_float (3333 / 100))\<rparr>
   \<and> rows (empty_table Map.empty) = []
   \<and> get_statistics (empty_table Map.empty)
     = Inr \<lparr>st_total_data = 0, status_sehat = 0, status_sakit = 0,
            persentase_sehat = PyInt 0, persentase_sakit = PyInt 0\<rparr>"
proof -
  have "get_statistics three_uploads
     = Inr \<lparr>st_total_data = 3, status_sehat = 2, status_sakit = 1,
            persentase_sehat = percentage 2 3, persentase_sakit = percentage 1 3\<rparr>"
    using get_statistics_result [of three_uploads]
    by (simp add: rows_three_uploads numeral_2_eq_2 numeral_3_eq_3)
  moreover have "get_statistics (empty_table Map.empty)
     = Inr \<lparr>st_total_data = 0, status_sehat = 0, status_sakit = 0,
            persentase_sehat = PyInt 0, persentase_sakit = PyInt 0\<rparr>"
    using get_statistics_result [of "empty_table Map.empty"]
    by (simp add: rows_empty_table percentage_def)
  ultimately show ?thesis
    by (simp add: percentage_2_3 percentage_1_3 rows_empty_table)
qed

end
